theory Spec2Isabelle
  imports Main "HOL-Library.Word"
begin

section \<open>The extension module \<^verbatim>\<open>capi_tests/simple/my_module.c\<close>\<close>

text \<open>
  The module is one C function, \<^verbatim>\<open>my_function\<close>, a method table, a module
  definition and the initialisation entry point. The function calls the hosting runtime
  three times (\<^verbatim>\<open>PyArg_ParseTuple\<close>, \<^verbatim>\<open>Py_BuildValue\<close>,
  \<^verbatim>\<open>PyModule_Create\<close>); the code of those calls is the runtime's and is not
  part of the file. They are modelled from the specification, each under a note that
  says so. Everything else below is a transcription of the C file.
\<close>

subsection \<open>Values, native integers and the runtime's state\<close>

text \<open>Modelled from the spec: the runtime's object type, declared in its header and
  absent from the sources; the spec's "dynamically-typed values". Only the shape that
  decides whether a value is an integer matters to the module: an integer object
  (unbounded, as the runtime's integers are), a text value, or the none object.
\<close>

datatype PyObject = PyLong int | PyUnicode string | PyNone

text \<open>
  The C type \<^verbatim>\<open>int\<close>: 32 bits, two's complement, read with \<open>sint\<close>.
  ISO C leaves signed overflow undefined; the model takes the wrap-around that the
  multiplication instruction performs. The theorems that promise a doubled result are
  stated for the inputs where no overflow happens and do not depend on this choice.
\<close>

type_synonym c_int = "32 word"

definition INT_MIN :: int where
  "INT_MIN = - (2 ^ 31)"

definition INT_MAX :: int where
  "INT_MAX = 2 ^ 31 - 1"

text \<open>Modelled from the spec: the errors that the runtime signals, absent from the
  sources. The spec names the conversion error of the argument parser and the
  allocation failure of the runtime.
\<close>

datatype error_kind = ArgumentConversionError | AllocationFailure

text \<open>Modelled from the spec: the runtime's state, absent from the sources, as far as a
  call can observe it: the per-call error channel (empty, or the error that was
  signalled) and whether the allocator can serve a request. An object that a call
  returns belongs to the caller and is not part of the state. The record is extensible:
  every function below is polymorphic in the extension, which stands for all the other
  state of the runtime.
\<close>

record runtime =
  error_channel :: "error_kind option"
  can_allocate :: bool

subsection \<open>The runtime's calls\<close>

text \<open>Modelled from the spec: the conversion of one argument for the format unit
  \<^verbatim>\<open>"i"\<close> of \<^verbatim>\<open>PyArg_ParseTuple\<close>, which is the runtime's code and absent
  from the sources. The spec: the argument "must be convertible to a native signed
  integer"; a value of the wrong type or out of the native range is not.
\<close>

fun as_c_int :: "PyObject \<Rightarrow> c_int option" where
  "as_c_int (PyLong n) = (if INT_MIN \<le> n \<and> n \<le> INT_MAX then Some (word_of_int n) else None)"
| "as_c_int (PyUnicode t) = None"
| "as_c_int PyNone = None"

text \<open>Modelled from the spec: \<^verbatim>\<open>PyArg_ParseTuple(args, "i", &num)\<close>, absent from the
  sources. The spec: "exactly one argument expected, which must be convertible to a
  native signed integer"; on failure the error \<open>ArgumentConversionError\<close> is signalled
  on the error channel. \<open>Some num\<close> is the C call returning non-zero with
  \<^verbatim>\<open>num\<close> written; \<open>None\<close> is the C call returning zero.
\<close>

definition PyArg_ParseTuple_i ::
  "PyObject list \<Rightarrow> 'a runtime_scheme \<Rightarrow> c_int option \<times> 'a runtime_scheme" where
  "PyArg_ParseTuple_i args s =
     (case args of
        [x] \<Rightarrow>
          (case as_c_int x of
             Some num \<Rightarrow> (Some num, s)
           | None \<Rightarrow> (None, s\<lparr>error_channel := Some ArgumentConversionError\<rparr>))
      | _ \<Rightarrow> (None, s\<lparr>error_channel := Some ArgumentConversionError\<rparr>))"

text \<open>Modelled from the spec: \<^verbatim>\<open>Py_BuildValue("i", result)\<close>, absent from the sources.
  The spec: "convert \<open>result\<close> back into the runtime's dynamic value representation".
  The new object is allocated by the runtime, whose allocation can fail (the spec names
  allocation failure for the module object); the call then signals the failure and
  returns \<^verbatim>\<open>NULL\<close>, here \<open>None\<close>.
\<close>

definition Py_BuildValue_i ::
  "c_int \<Rightarrow> 'a runtime_scheme \<Rightarrow> PyObject option \<times> 'a runtime_scheme" where
  "Py_BuildValue_i v s =
     (if can_allocate s then (Some (PyLong (sint v)), s)
      else (None, s\<lparr>error_channel := Some AllocationFailure\<rparr>))"

subsection \<open>The exported function\<close>

text \<open>
  \<^verbatim>\<open>static PyObject* my_function(PyObject* self, PyObject* args)\<close>, lines 4 to 17.
  The argument tuple is the list of its items. The result \<open>None\<close> is \<^verbatim>\<open>NULL\<close>.
\<close>

definition my_function ::
  "PyObject \<Rightarrow> PyObject list \<Rightarrow> 'a runtime_scheme \<Rightarrow> PyObject option \<times> 'a runtime_scheme" where
  "my_function self args s =
     (case PyArg_ParseTuple_i args s of
        (None, s1) \<Rightarrow> (None, s1)
      | (Some num, s1) \<Rightarrow> (let result = num * 2 in Py_BuildValue_i result s1))"

subsection \<open>The method table, the module definition and the entry point\<close>

text \<open>
  \<^verbatim>\<open>PyMethodDef\<close>: a \<^verbatim>\<open>NULL\<close> pointer is \<open>None\<close>, the function pointer is
  the function.
\<close>

record 'a PyMethodDef =
  ml_name :: "string option"
  ml_meth :: "(PyObject \<Rightarrow> PyObject list \<Rightarrow> 'a runtime_scheme
                \<Rightarrow> PyObject option \<times> 'a runtime_scheme) option"
  ml_flags :: int
  ml_doc :: "string option"

text \<open>Modelled from the spec: \<^verbatim>\<open>METH_VARARGS\<close>, a macro of the runtime's header, absent
  from the sources; the spec's "calling-convention tag (fixed positional arguments)".
\<close>

definition METH_VARARGS :: int where
  "METH_VARARGS = 1"

text \<open>\<^verbatim>\<open>static PyMethodDef MyModuleMethods[]\<close>, lines 20 to 23.\<close>

definition MyModuleMethods :: "'a PyMethodDef list" where
  "MyModuleMethods =
     [\<lparr>ml_name = Some ''my_function'', ml_meth = Some my_function,
       ml_flags = METH_VARARGS, ml_doc = Some ''Doubles the input number.''\<rparr>,
      \<lparr>ml_name = None, ml_meth = None, ml_flags = 0, ml_doc = None\<rparr>]"

text \<open>
  \<^verbatim>\<open>static struct PyModuleDef mymodule\<close>, lines 26 to 32, without the header macro
  \<^verbatim>\<open>PyModuleDef_HEAD_INIT\<close>.
\<close>

record 'a PyModuleDef =
  m_name :: string
  m_doc :: "string option"
  m_size :: int
  m_methods :: "'a PyMethodDef list"

definition mymodule :: "'a PyModuleDef" where
  "mymodule =
     \<lparr>m_name = ''my_module'', m_doc = None, m_size = - 1, m_methods = MyModuleMethods\<rparr>"

text \<open>Modelled from the spec: the module handle and \<^verbatim>\<open>PyModule_Create\<close>, absent from
  the sources. The spec: "the module object is constructed and returned to the loader",
  with "no failure path beyond allocation failure".
\<close>

record 'a PyModuleObject =
  md_def :: "'a PyModuleDef"

definition PyModule_Create ::
  "'a PyModuleDef \<Rightarrow> 'a runtime_scheme \<Rightarrow> 'a PyModuleObject option \<times> 'a runtime_scheme" where
  "PyModule_Create d s =
     (if can_allocate s then (Some \<lparr>md_def = d\<rparr>, s)
      else (None, s\<lparr>error_channel := Some AllocationFailure\<rparr>))"

text \<open>\<^verbatim>\<open>PyMODINIT_FUNC PyInit_my_module(void)\<close>, lines 35 to 37.\<close>

definition PyInit_my_module ::
  "'a runtime_scheme \<Rightarrow> 'a PyModuleObject option \<times> 'a runtime_scheme" where
  "PyInit_my_module s = PyModule_Create mymodule s"

text \<open>Modelled from the spec: the runtime's walk over a method table, absent from the
  sources. The spec: "the registration table's sentinel terminates lookup". The walk
  reads one entry after the other and stops at the first entry whose name is
  \<^verbatim>\<open>NULL\<close>. Running off the end of the array, which C does not catch, is the
  result \<open>ReadPastEnd\<close>.
\<close>

datatype 'a lookup_result = Found "'a PyMethodDef" | NotFound | ReadPastEnd

fun lookup_method :: "'a PyMethodDef list \<Rightarrow> string \<Rightarrow> 'a lookup_result" where
  "lookup_method [] name = ReadPastEnd"
| "lookup_method (e # rest) name =
     (case ml_name e of
        None \<Rightarrow> NotFound
      | Some n \<Rightarrow> if n = name then Found e else lookup_method rest name)"

text \<open>Modelled from the spec: the entries that the runtime registers from a table, those
  before the sentinel; the registration is the runtime's code, absent from the sources.
\<close>

fun exported :: "'a PyMethodDef list \<Rightarrow> 'a PyMethodDef list" where
  "exported [] = []"
| "exported (e # rest) = (case ml_name e of None \<Rightarrow> [] | Some n \<Rightarrow> e # exported rest)"

text \<open>Modelled from the spec: the condition on a call's input, in the spec's words: the
  input can be "interpreted as the expected native type" unless it has the "wrong
  count, wrong type" or is "out-of-range".
\<close>

fun one_native_int :: "PyObject list \<Rightarrow> bool" where
  "one_native_int [PyLong n] = (INT_MIN \<le> n \<and> n \<le> INT_MAX)"
| "one_native_int args = False"

subsection \<open>The statements of the exported function, one at a time\<close>

text \<open>
  The control flow of lines 4 to 17, for the question whether a call returns. A
  configuration is a program point with the locals that are set there and the state of
  the runtime: before line 8 (\<^verbatim>\<open>num\<close> not yet written), at the
  \<^verbatim>\<open>return NULL\<close> of line 9, before line 13 with \<^verbatim>\<open>num\<close>, before
  line 16 with \<^verbatim>\<open>result\<close>, and after the \<^verbatim>\<open>return\<close>, with the returned
  pointer. A call of the runtime is one step; the function has no other call, no loop
  and no jump backwards.
\<close>

datatype 'a config =
    Line8 PyObject "PyObject list" "'a runtime_scheme"
  | Line9 "'a runtime_scheme"
  | Line13 c_int "'a runtime_scheme"
  | Line16 c_int "'a runtime_scheme"
  | Returned "PyObject option" "'a runtime_scheme"

fun step :: "'a config \<Rightarrow> 'a config" where
  "step (Line8 self args s) =
     (case PyArg_ParseTuple_i args s of
        (None, s1) \<Rightarrow> Line9 s1
      | (Some num, s1) \<Rightarrow> Line13 num s1)"
| "step (Line9 s) = Returned None s"
| "step (Line13 num s) = Line16 (num * 2) s"
| "step (Line16 result s) = (case Py_BuildValue_i result s of (r, s1) \<Rightarrow> Returned r s1)"
| "step (Returned r s) = Returned r s"

fun returned :: "'a config \<Rightarrow> bool" where
  "returned (Returned r s) = True"
| "returned c = False"

text \<open>The source line of a program point; 17 is the closing brace.\<close>

fun line :: "'a config \<Rightarrow> nat" where
  "line (Line8 self args s) = 8"
| "line (Line9 s) = 9"
| "line (Line13 num s) = 13"
| "line (Line16 result s) = 16"
| "line (Returned r s) = 17"

text \<open>
  Running the statements with a bound on their number: \<open>None\<close> when the bound is used
  up before the function has returned.
\<close>

fun run :: "nat \<Rightarrow> 'a config \<Rightarrow> 'a config option" where
  "run 0 c = (if returned c then Some c else None)"
| "run (Suc n) c = (if returned c then Some c else run n (step c))"

section \<open>Properties\<close>

subsection \<open>Native integers\<close>

lemma sint_word_of_int_c_int:
  "INT_MIN \<le> k \<Longrightarrow> k \<le> INT_MAX \<Longrightarrow> sint (word_of_int k :: c_int) = k"
  by (simp add: INT_MIN_def INT_MAX_def sint_sbintrunc' signed_take_bit_int_eq_self)

lemma c_int_range: "INT_MIN \<le> sint (v :: c_int) \<and> sint v \<le> INT_MAX"
  using sint_ge [of v] sint_lt [of v] by (simp add: INT_MIN_def INT_MAX_def)

lemma double_no_overflow:
  assumes "- (2 ^ 30) \<le> n" and "n < 2 ^ 30"
  shows "sint ((word_of_int n :: c_int) * 2) = 2 * n"
proof -
  have "(word_of_int n :: c_int) * 2 = word_of_int (2 * n)"
    by simp
  moreover have "INT_MIN \<le> 2 * n" and "2 * n \<le> INT_MAX"
    using assms by (simp_all add: INT_MIN_def INT_MAX_def)
  ultimately show ?thesis
    by (simp only: sint_word_of_int_c_int)
qed

subsection \<open>The two ways through the function\<close>

lemma one_native_int_cases:
  "one_native_int args = (\<exists>n. args = [PyLong n] \<and> INT_MIN \<le> n \<and> n \<le> INT_MAX)"
  by (cases args rule: one_native_int.cases) simp_all

lemma parse_failure:
  "\<not> one_native_int args \<Longrightarrow>
     PyArg_ParseTuple_i args s = (None, s\<lparr>error_channel := Some ArgumentConversionError\<rparr>)"
  by (cases args rule: one_native_int.cases)
    (simp_all add: PyArg_ParseTuple_i_def split: list.split)

lemma parse_success:
  "INT_MIN \<le> n \<Longrightarrow> n \<le> INT_MAX \<Longrightarrow>
     PyArg_ParseTuple_i [PyLong n] s = (Some (word_of_int n), s)"
  by (simp add: PyArg_ParseTuple_i_def)

lemma parse_result_iff:
  "(fst (PyArg_ParseTuple_i args s) = None) = (\<not> one_native_int args)"
  by (cases args rule: one_native_int.cases)
    (simp_all add: PyArg_ParseTuple_i_def split: list.split)

text \<open>
  What lines 8 to 10 and line 16 do, whatever the two calls of the runtime return: a
  failed conversion ends the call with the state the parser left, and a converted
  number is doubled and handed to the constructor, whose answer is the call's answer.
\<close>

lemma my_function_early_return:
  "PyArg_ParseTuple_i args s = (None, s1) \<Longrightarrow> my_function self args s = (None, s1)"
  by (simp add: my_function_def)

lemma my_function_passes_on:
  "PyArg_ParseTuple_i args s = (Some num, s1) \<Longrightarrow>
     my_function self args s = Py_BuildValue_i (num * 2) s1"
  by (simp add: my_function_def)

lemma my_function_parse_failure:
  "\<not> one_native_int args \<Longrightarrow>
     my_function self args s = (None, s\<lparr>error_channel := Some ArgumentConversionError\<rparr>)"
  by (simp add: my_function_early_return parse_failure)

lemma my_function_parse_success:
  "INT_MIN \<le> n \<Longrightarrow> n \<le> INT_MAX \<Longrightarrow>
     my_function self [PyLong n] s = Py_BuildValue_i (word_of_int n * 2) s"
  by (simp add: my_function_passes_on parse_success)

lemma my_function_result:
  "fst (my_function self args s)
     = (if one_native_int args \<and> can_allocate s
        then Some (PyLong (sint (case as_c_int (hd args) of Some num \<Rightarrow> num * 2 | None \<Rightarrow> 0)))
        else None)"
proof (cases "one_native_int args")
  case False
  then show ?thesis by (simp add: my_function_parse_failure)
next
  case True
  then obtain n where "args = [PyLong n]" and "INT_MIN \<le> n" and "n \<le> INT_MAX"
    unfolding one_native_int_cases by blast
  then show ?thesis
    by (simp add: my_function_parse_success Py_BuildValue_i_def)
qed

lemma my_function_error:
  assumes "fst (my_function self args s) = None"
  shows "error_channel (snd (my_function self args s))
           = Some (if one_native_int args then AllocationFailure else ArgumentConversionError)"
proof (cases "one_native_int args")
  case False
  then show ?thesis by (simp add: my_function_parse_failure)
next
  case True
  then obtain n where "args = [PyLong n]" and "INT_MIN \<le> n" and "n \<le> INT_MAX"
    unfolding one_native_int_cases by blast
  then show ?thesis using assms
    by (simp add: my_function_parse_success Py_BuildValue_i_def split: if_splits)
qed

lemma my_function_unchanged:
  "fst (my_function self args s) = Some v \<Longrightarrow> snd (my_function self args s) = s"
proof (cases "one_native_int args")
  case False
  assume "fst (my_function self args s) = Some v"
  with False show ?thesis by (simp add: my_function_parse_failure)
next
  case True
  assume r: "fst (my_function self args s) = Some v"
  from True obtain n where "args = [PyLong n]" and "INT_MIN \<le> n" and "n \<le> INT_MAX"
    unfolding one_native_int_cases by blast
  then show ?thesis using r
    by (simp add: my_function_parse_success Py_BuildValue_i_def split: if_splits)
qed

lemma my_function_keeps_allocator:
  "can_allocate (snd (my_function self args s)) = can_allocate s"
proof (cases "one_native_int args")
  case False
  then show ?thesis by (simp add: my_function_parse_failure)
next
  case True
  then obtain n where "args = [PyLong n]" and "INT_MIN \<le> n" and "n \<le> INT_MAX"
    unfolding one_native_int_cases by blast
  then show ?thesis
    by (simp add: my_function_parse_success Py_BuildValue_i_def)
qed

text \<open>
  Outside \<open>[- 2 ^ 30, 2 ^ 30)\<close> the product does not fit the C type of
  \<^verbatim>\<open>result\<close>: whatever the overflowing multiplication leaves there, the object
  built from it is not the double of the argument.
\<close>

lemma my_function_overflow:
  assumes "INT_MIN \<le> n" and "n \<le> INT_MAX" and "n < - (2 ^ 30) \<or> 2 ^ 30 \<le> n"
  shows "fst (my_function self [PyLong n] s) \<noteq> Some (PyLong (2 * n))"
proof
  assume eq: "fst (my_function self [PyLong n] s) = Some (PyLong (2 * n))"
  have "my_function self [PyLong n] s = Py_BuildValue_i (word_of_int n * 2) s"
    using assms(1,2) by (rule my_function_parse_success)
  with eq have "sint ((word_of_int n :: c_int) * 2) = 2 * n"
    by (simp add: Py_BuildValue_i_def split: if_splits)
  moreover have "INT_MIN \<le> sint ((word_of_int n :: c_int) * 2)"
    and "sint ((word_of_int n :: c_int) * 2) \<le> INT_MAX"
    using c_int_range [of "word_of_int n * 2"] by simp_all
  ultimately show False
    using assms(3) by (simp add: INT_MIN_def INT_MAX_def)
qed

lemma result_construction_failure:
  assumes "INT_MIN \<le> n" and "n \<le> INT_MAX" and "\<not> can_allocate s"
  shows "my_function self [PyLong n] s = (None, s\<lparr>error_channel := Some AllocationFailure\<rparr>)"
  using assms by (simp add: my_function_parse_success Py_BuildValue_i_def)

subsection \<open>C1: the result is the double of the argument\<close>

text \<open>
  Where the product fits the C type, in a call made with no error pending and in a
  runtime that can allocate the result object, the function returns the double.
\<close>

lemma my_function_without_overflow:
  assumes "- (2 ^ 30) \<le> n" and "n < 2 ^ 30"
    and "error_channel s = None" and "can_allocate s"
  shows "my_function self [PyLong n] s = (Some (PyLong (2 * n)), s)"
proof -
  have "INT_MIN \<le> n" and "n \<le> INT_MAX"
    using assms(1,2) by (simp_all add: INT_MIN_def INT_MAX_def)
  then have "my_function self [PyLong n] s = Py_BuildValue_i (word_of_int n * 2) s"
    by (rule my_function_parse_success)
  also have "\<dots> = (Some (PyLong (sint ((word_of_int n :: c_int) * 2))), s)"
    using assms(4) by (simp add: Py_BuildValue_i_def)
  also have "sint ((word_of_int n :: c_int) * 2) = 2 * n"
    using assms(1,2) by (rule double_no_overflow)
  finally show ?thesis .
qed

text \<open>
  Claim C1: for every integer \<open>n\<close> within the native signed integer range, the call
  with the single argument \<open>n\<close> returns exactly \<open>2 * n\<close>. The code breaks it. The
  argument \<open>2 ^ 30 = 1073741824\<close> is within the native range and is converted, but
  \<^verbatim>\<open>num * 2\<close> on line 13 is computed in the C type \<^verbatim>\<open>int\<close>, which cannot
  hold \<open>2 ^ 31\<close>: the multiplication overflows and the call, made with no error
  pending in a runtime that can allocate, returns \<open>- 2147483648\<close>, where the claim and
  the documentation text of line 21, "Doubles the input number.", say \<open>2147483648\<close>.
\<close>

theorem my_function_at_two_to_the_30:
  "INT_MIN \<le> 1073741824 \<and> 1073741824 \<le> INT_MAX
   \<and> my_function PyNone [PyLong 1073741824] \<lparr>error_channel = None, can_allocate = True\<rparr>
       = (Some (PyLong (- 2147483648)), \<lparr>error_channel = None, can_allocate = True\<rparr>)
   \<and> PyLong (- 2147483648) \<noteq> PyLong (2 * 1073741824)"
  by (simp add: INT_MIN_def INT_MAX_def my_function_def PyArg_ParseTuple_i_def
      Py_BuildValue_i_def)

subsection \<open>C2: calls that are not one convertible argument\<close>

text \<open>
  Claim C2: for every call whose argument sequence is empty, has two or more arguments,
  or whose single argument is not convertible to a native signed integer, the call
  signals \<open>ArgumentConversionError\<close> and produces no result value.
\<close>

theorem bad_arguments_raise:
  assumes "args = [] \<or> 2 \<le> length args \<or> (\<exists>x. args = [x] \<and> as_c_int x = None)"
  shows "my_function self args s
           = (None, s\<lparr>error_channel := Some ArgumentConversionError\<rparr>)"
proof -
  have "\<not> one_native_int args"
  proof
    assume "one_native_int args"
    then obtain n where "args = [PyLong n]" and "INT_MIN \<le> n" and "n \<le> INT_MAX"
      unfolding one_native_int_cases by blast
    with assms show False by simp
  qed
  then show ?thesis by (rule my_function_parse_failure)
qed

text \<open>
  Claim C2 at a call with no argument, with two arguments, with a text value and with
  an integer beyond the native range.
\<close>

theorem bad_arguments_raise_witness:
  "my_function PyNone [] \<lparr>error_channel = None, can_allocate = True\<rparr>
     = (None, \<lparr>error_channel = Some ArgumentConversionError, can_allocate = True\<rparr>)
   \<and> my_function PyNone [PyLong 1, PyLong 2] \<lparr>error_channel = None, can_allocate = True\<rparr>
     = (None, \<lparr>error_channel = Some ArgumentConversionError, can_allocate = True\<rparr>)
   \<and> my_function PyNone [PyUnicode ''seven''] \<lparr>error_channel = None, can_allocate = True\<rparr>
     = (None, \<lparr>error_channel = Some ArgumentConversionError, can_allocate = True\<rparr>)
   \<and> my_function PyNone [PyLong 2147483648] \<lparr>error_channel = None, can_allocate = True\<rparr>
     = (None, \<lparr>error_channel = Some ArgumentConversionError, can_allocate = True\<rparr>)"
  using
    bad_arguments_raise [of "[]" PyNone "\<lparr>error_channel = None, can_allocate = True\<rparr>"]
    bad_arguments_raise [of "[PyLong 1, PyLong 2]" PyNone
      "\<lparr>error_channel = None, can_allocate = True\<rparr>"]
    bad_arguments_raise [of "[PyUnicode ''seven'']" PyNone
      "\<lparr>error_channel = None, can_allocate = True\<rparr>"]
    bad_arguments_raise [of "[PyLong 2147483648]" PyNone
      "\<lparr>error_channel = None, can_allocate = True\<rparr>"]
  by (simp add: INT_MAX_def)

subsection \<open>C3: when a call fails, and with which error\<close>




subsection \<open>C4: a failed conversion ends the call\<close>

text \<open>
  Claim C4: for every call on which argument conversion fails, the call returns the "no
  result" value at once, with the error signalled and nothing else done: its final
  state is the state that the failed conversion left, which is the initial state with
  \<open>ArgumentConversionError\<close> on the error channel. The constructor of line 16 has not
  run, whatever the allocator: it would have left an object or its own error.
\<close>

theorem conversion_failure_returns_at_once:
  assumes "fst (PyArg_ParseTuple_i args s) = None"
  shows "my_function self args s = (None, snd (PyArg_ParseTuple_i args s))
         \<and> snd (PyArg_ParseTuple_i args s)
             = s\<lparr>error_channel := Some ArgumentConversionError\<rparr>"
proof -
  obtain s1 where p: "PyArg_ParseTuple_i args s = (None, s1)"
    using assms by (cases "PyArg_ParseTuple_i args s") simp
  then have "my_function self args s = (None, s1)"
    by (rule my_function_early_return)
  moreover have "\<not> one_native_int args"
    using assms by (simp add: parse_result_iff)
  then have "s1 = s\<lparr>error_channel := Some ArgumentConversionError\<rparr>"
    using p by (simp add: parse_failure)
  ultimately show ?thesis using p by simp
qed

text \<open>
  Claim C4 at a call with two arguments, in a runtime whose allocator would fail: the
  error is the conversion error, not the allocator's.
\<close>

theorem conversion_failure_returns_at_once_witness:
  "fst (PyArg_ParseTuple_i [PyUnicode ''x'', PyLong 3]
          \<lparr>error_channel = None, can_allocate = False\<rparr>) = None
   \<and> my_function PyNone [PyUnicode ''x'', PyLong 3]
         \<lparr>error_channel = None, can_allocate = False\<rparr>
       = (None, \<lparr>error_channel = Some ArgumentConversionError, can_allocate = False\<rparr>)"
proof -
  have h: "fst (PyArg_ParseTuple_i [PyUnicode ''x'', PyLong 3]
                  \<lparr>error_channel = None, can_allocate = False\<rparr>) = None"
    by (simp add: PyArg_ParseTuple_i_def)
  show ?thesis
    using h conversion_failure_returns_at_once [OF h, of PyNone] by simp
qed

subsection \<open>C5: the registration table\<close>

text \<open>
  A walk over a table that holds a sentinel stops inside the table, whatever the name
  that is looked up.
\<close>

lemma lookup_method_stops:
  "\<exists>e \<in> set tbl. ml_name e = None \<Longrightarrow> lookup_method tbl name \<noteq> ReadPastEnd"
  by (induction tbl) (auto split: option.split)

lemma exported_before_sentinel:
  "e \<in> set (exported tbl) \<Longrightarrow> e \<in> set tbl \<and> ml_name e \<noteq> None"
  by (induction tbl) (auto split: option.splits dest: sym)

text \<open>
  Claim C5: the table has exactly one exported entry, named \<^verbatim>\<open>my_function\<close>, with
  the function, the positional calling convention and the documentation text "Doubles
  the input number."; its final entry, the second, is the sentinel; a lookup of
  \<^verbatim>\<open>my_function\<close> finds the entry and a lookup of any other name stops at the
  sentinel with "not found", so that no lookup reads past the sentinel; and the module
  that module load returns carries this table.
\<close>

theorem registration_table:
  "exported (MyModuleMethods :: 'a PyMethodDef list)
     = [\<lparr>ml_name = Some ''my_function'', ml_meth = Some my_function,
          ml_flags = METH_VARARGS, ml_doc = Some ''Doubles the input number.''\<rparr>]
   \<and> length (MyModuleMethods :: 'a PyMethodDef list) = 2
   \<and> last (MyModuleMethods :: 'a PyMethodDef list)
       = \<lparr>ml_name = None, ml_meth = None, ml_flags = 0, ml_doc = None\<rparr>
   \<and> lookup_method (MyModuleMethods :: 'a PyMethodDef list) name
       = (if name = ''my_function''
          then Found \<lparr>ml_name = Some ''my_function'', ml_meth = Some my_function,
                 ml_flags = METH_VARARGS, ml_doc = Some ''Doubles the input number.''\<rparr>
          else NotFound)
   \<and> lookup_method (MyModuleMethods :: 'a PyMethodDef list) name \<noteq> ReadPastEnd
   \<and> fst (PyInit_my_module (s :: 'a runtime_scheme))
       = (if can_allocate s then Some \<lparr>md_def = mymodule\<rparr> else None)
   \<and> m_methods (mymodule :: 'a PyModuleDef) = MyModuleMethods"
  by (simp add: MyModuleMethods_def PyInit_my_module_def PyModule_Create_def mymodule_def)

subsection \<open>C6: what a call changes\<close>

text \<open>
  Claim C6: a call changes nothing of the runtime's state but the error channel: the
  final state is the initial state with the final content of the error channel. A call
  that returns a result leaves the whole state as it was, and a call that returns "no
  result" leaves an error on the channel.
\<close>

theorem my_function_frame:
  "snd (my_function self args s)
     = s\<lparr>error_channel := error_channel (snd (my_function self args s))\<rparr>
   \<and> (case fst (my_function self args s) of
        Some v \<Rightarrow> snd (my_function self args s) = s
      | None \<Rightarrow> error_channel (snd (my_function self args s)) \<noteq> None)"
proof (cases "one_native_int args")
  case False
  then show ?thesis by (simp add: my_function_parse_failure)
next
  case True
  then obtain n where "args = [PyLong n]" and "INT_MIN \<le> n" and "n \<le> INT_MAX"
    unfolding one_native_int_cases by blast
  then show ?thesis
    by (simp add: my_function_parse_success Py_BuildValue_i_def)
qed

subsection \<open>C7: what the outcome of a call depends on\<close>

text \<open>
  Claim C7 reads: any two invocations with equal argument sequences have equal
  outcomes. The same argument \<open>12345\<close> gives the result \<open>24690\<close> in a runtime that can
  allocate the result object and "no result" in one that cannot.
\<close>

theorem outcome_determined_counterexample:
  "fst (my_function PyNone [PyLong 12345] \<lparr>error_channel = None, can_allocate = True\<rparr>)
     = Some (PyLong 24690)
   \<and> fst (my_function PyNone [PyLong 12345] \<lparr>error_channel = None, can_allocate = False\<rparr>)
     = None"
  by (simp add: INT_MIN_def INT_MAX_def my_function_def PyArg_ParseTuple_i_def
      Py_BuildValue_i_def)

text \<open>
  Claim C7, amended: the adapter is deterministic and keeps no state of its own. For any
  two invocations supplied equal argument sequences, in runtimes whose error channels
  hold the same and which agree on whether the result object can be allocated, the
  outcomes are equal: the same result, or the same error. The \<^verbatim>\<open>self\<close> objects
  and all the other state of the two runtimes may differ.
\<close>

theorem outcome_determined:
  assumes "error_channel s = error_channel t" and "can_allocate s = can_allocate t"
  shows "fst (my_function self args s) = fst (my_function self' args t)
         \<and> error_channel (snd (my_function self args s))
             = error_channel (snd (my_function self' args t))"
proof -
  have r: "fst (my_function self args s) = fst (my_function self' args t)"
    using assms(2) by (simp add: my_function_result)
  have "error_channel (snd (my_function self args s))
          = error_channel (snd (my_function self' args t))"
  proof (cases "fst (my_function self args s)")
    case None
    then show ?thesis
      using r by (simp add: my_function_error)
  next
    case (Some v)
    then have "snd (my_function self args s) = s"
      using my_function_unchanged [of self args s] by simp
    moreover from Some r have "snd (my_function self' args t) = t"
      using my_function_unchanged [of self' args t] by simp
    ultimately show ?thesis
      using assms(1) by simp
  qed
  with r show ?thesis by simp
qed

text \<open>
  The amended claim C7 at two calls with the argument \<open>12345\<close> that differ in the
  \<^verbatim>\<open>self\<close> object and in the other state of the runtime, and at two such calls in
  runtimes that cannot allocate.
\<close>

theorem outcome_determined_witness:
  "fst (my_function (PyLong 9) [PyLong 12345]
          \<lparr>error_channel = None, can_allocate = True, \<dots> = (7 :: nat)\<rparr>)
     = Some (PyLong 24690)
   \<and> error_channel (snd (my_function (PyLong 9) [PyLong 12345]
          \<lparr>error_channel = None, can_allocate = False, \<dots> = (7 :: nat)\<rparr>))
     = Some AllocationFailure"
proof -
  have v: "my_function PyNone [PyLong 12345] \<lparr>error_channel = None, can_allocate = True\<rparr>
             = (Some (PyLong 24690), \<lparr>error_channel = None, can_allocate = True\<rparr>)"
    by (simp add: INT_MIN_def INT_MAX_def my_function_def PyArg_ParseTuple_i_def
        Py_BuildValue_i_def)
  have w: "my_function PyNone [PyLong 12345] \<lparr>error_channel = None, can_allocate = False\<rparr>
             = (None, \<lparr>error_channel = Some AllocationFailure, can_allocate = False\<rparr>)"
    by (simp add: INT_MIN_def INT_MAX_def my_function_def PyArg_ParseTuple_i_def
        Py_BuildValue_i_def)
  show ?thesis
    using v w
      outcome_determined [of "\<lparr>error_channel = None, can_allocate = True\<rparr>"
        "\<lparr>error_channel = None, can_allocate = True, \<dots> = (7 :: nat)\<rparr>"
        PyNone "[PyLong 12345]" "PyLong 9"]
      outcome_determined [of "\<lparr>error_channel = None, can_allocate = False\<rparr>"
        "\<lparr>error_channel = None, can_allocate = False, \<dots> = (7 :: nat)\<rparr>"
        PyNone "[PyLong 12345]" "PyLong 9"]
    by simp
qed

subsection \<open>C8: every call returns\<close>

text \<open>
  The statements of the function, run one at a time, compute what \<open>my_function\<close>
  computes: two steps to the \<^verbatim>\<open>return NULL\<close> of line 9, three to the
  \<^verbatim>\<open>return\<close> of line 16.
\<close>

lemma run_conversion_failure:
  assumes "PyArg_ParseTuple_i args s = (None, s1)"
  shows "run 2 (Line8 self args s) = Some (Returned None s1)"
proof -
  have "step (Line8 self args s) = Line9 s1"
    using assms by simp
  then have "run 2 (Line8 self args s) = run 1 (Line9 s1)"
    by (simp add: numeral_2_eq_2)
  also have "\<dots> = run 0 (Returned None s1)"
    by simp
  finally show ?thesis by simp
qed

lemma run_converted:
  assumes "PyArg_ParseTuple_i args s = (Some num, s1)"
  shows "run 3 (Line8 self args s)
           = Some (Returned (fst (Py_BuildValue_i (num * 2) s1))
                            (snd (Py_BuildValue_i (num * 2) s1)))"
proof -
  have "step (Line8 self args s) = Line13 num s1"
    using assms by simp
  then have "run 3 (Line8 self args s) = run 2 (Line13 num s1)"
    by (simp add: numeral_3_eq_3 numeral_2_eq_2)
  also have "\<dots> = run 1 (Line16 (num * 2) s1)"
    by (simp add: numeral_2_eq_2)
  also have "\<dots> = run 0 (step (Line16 (num * 2) s1))"
    by simp
  also have "\<dots> = Some (Returned (fst (Py_BuildValue_i (num * 2) s1))
                             (snd (Py_BuildValue_i (num * 2) s1)))"
    by (simp add: case_prod_unfold)
  finally show ?thesis .
qed

lemma run_more_fuel:
  "run n c = Some c' \<Longrightarrow> run (Suc n) c = Some c'"
proof (induction n arbitrary: c)
  case 0
  then show ?case by (simp split: if_splits)
next
  case (Suc n)
  show ?case
  proof (cases "returned c")
    case True
    with Suc.prems show ?thesis by simp
  next
    case False
    with Suc.prems have "run n (step c) = Some c'" by simp
    then have "run (Suc n) (step c) = Some c'" by (rule Suc.IH)
    with False show ?thesis by simp
  qed
qed

text \<open>Every statement leads further down the function: no program point comes twice.\<close>

lemma step_goes_forward:
  "\<not> returned c \<Longrightarrow> line c < line (step c)"
  by (cases c) (auto split: prod.split option.split)

text \<open>One step is not enough: the bound counts the statements that the call runs.\<close>

lemma run_one_step:
  "run 1 (Line8 self args s) = None"
  by (simp split: prod.split option.split)

text \<open>
  Claim C8: every call returns, whatever the argument sequence and the state of the
  runtime: run statement by statement from line 8, the function reaches its
  \<^verbatim>\<open>return\<close> within three steps, of which at most two are calls of the runtime
  and one is the multiplication; it returns what \<open>my_function\<close> gives, which is
  either a result, with the state as it was, or "no result" with an error on the
  channel.
\<close>

theorem my_function_returns:
  "run 3 (Line8 self args s)
     = Some (Returned (fst (my_function self args s)) (snd (my_function self args s)))
   \<and> ((\<exists>v. my_function self args s = (Some v, s))
      \<or> (\<exists>e. my_function self args s = (None, s\<lparr>error_channel := Some e\<rparr>)))"
proof -
  have machine: "run 3 (Line8 self args s)
      = Some (Returned (fst (my_function self args s)) (snd (my_function self args s)))"
  proof (cases "PyArg_ParseTuple_i args s")
    case (Pair c s1)
    show ?thesis
    proof (cases c)
      case None
      with Pair have p: "PyArg_ParseTuple_i args s = (None, s1)" by simp
      then have "run 2 (Line8 self args s) = Some (Returned None s1)"
        by (rule run_conversion_failure)
      then have "run 3 (Line8 self args s) = Some (Returned None s1)"
        using run_more_fuel [of 2 "Line8 self args s" "Returned None s1"]
        by (simp add: numeral_3_eq_3 numeral_2_eq_2)
      moreover have "my_function self args s = (None, s1)"
        using p by (rule my_function_early_return)
      ultimately show ?thesis by simp
    next
      case (Some num)
      with Pair have p: "PyArg_ParseTuple_i args s = (Some num, s1)" by simp
      then have "my_function self args s = Py_BuildValue_i (num * 2) s1"
        by (rule my_function_passes_on)
      with run_converted [OF p] show ?thesis by simp
    qed
  qed
  have shape: "(\<exists>v. my_function self args s = (Some v, s))
      \<or> (\<exists>e. my_function self args s = (None, s\<lparr>error_channel := Some e\<rparr>))"
  proof (cases "one_native_int args")
    case False
    then have "my_function self args s
                 = (None, s\<lparr>error_channel := Some ArgumentConversionError\<rparr>)"
      by (rule my_function_parse_failure)
    then show ?thesis by blast
  next
    case True
    then obtain n where a: "args = [PyLong n]" and r: "INT_MIN \<le> n" "n \<le> INT_MAX"
      unfolding one_native_int_cases by blast
    show ?thesis
    proof (cases "can_allocate s")
      case True
      with a r have "my_function self args s
                       = (Some (PyLong (sint ((word_of_int n :: c_int) * 2))), s)"
        by (simp add: my_function_parse_success Py_BuildValue_i_def)
      then show ?thesis by blast
    next
      case False
      with a r have "my_function self args s
                       = (None, s\<lparr>error_channel := Some AllocationFailure\<rparr>)"
        by (simp add: result_construction_failure)
      then show ?thesis by blast
    qed
  qed
  from machine shape show ?thesis by (rule conjI)
qed

subsection \<open>C9: the entry point\<close>

text \<open>
  Claim C9: the entry point takes nothing but the runtime and returns what
  \<^verbatim>\<open>PyModule_Create\<close> returns for the module definition, unchanged: the module
  handle, or "no handle" with the allocation failure on the error channel; it fails
  exactly when the allocation fails.
\<close>

theorem module_init:
  "PyInit_my_module s = PyModule_Create mymodule s
   \<and> PyInit_my_module s
       = (if can_allocate s then (Some \<lparr>md_def = mymodule\<rparr>, s)
          else (None, s\<lparr>error_channel := Some AllocationFailure\<rparr>))
   \<and> (fst (PyInit_my_module s) = None) = (\<not> can_allocate s)"
  by (simp add: PyInit_my_module_def PyModule_Create_def)

subsection \<open>C10: a converted argument does not guarantee a result\<close>

text \<open>
  Claim C10: there is a call whose single argument is an in-range native integer, so
  that the conversion succeeds, and which still returns "no result" with an error:
  the construction of the result object fails, and line 16 returns what the
  constructor returned.
\<close>

theorem converted_argument_can_fail:
  "\<exists>n (s :: runtime). INT_MIN \<le> n \<and> n \<le> INT_MAX
     \<and> PyArg_ParseTuple_i [PyLong n] s = (Some (word_of_int n), s)
     \<and> my_function PyNone [PyLong n] s
         = (None, s\<lparr>error_channel := Some AllocationFailure\<rparr>)"
proof -
  let ?s = "\<lparr>error_channel = None, can_allocate = False\<rparr>"
  have "INT_MIN \<le> 100000" and "100000 \<le> INT_MAX"
    by (simp_all add: INT_MIN_def INT_MAX_def)
  moreover from this have "PyArg_ParseTuple_i [PyLong 100000] ?s = (Some (word_of_int 100000), ?s)"
    by (rule parse_success)
  moreover have "my_function PyNone [PyLong 100000] ?s
                   = (None, ?s\<lparr>error_channel := Some AllocationFailure\<rparr>)"
    by (rule result_construction_failure) (simp_all add: INT_MIN_def INT_MAX_def)
  ultimately show ?thesis by blast
qed

end
